theory Spec2Isabelle
  imports Main "HOL-Library.Word" "HOL-Library.AList" "HOL-Library.List_Lexorder"
begin

section \<open>JavaScript values\<close>

text \<open>
  A JavaScript string is a sequence of UTF-16 code units. String literals of the source are
  written through \<open>ustr\<close>, which reads each character of its argument as the code unit of
  the same number (the literals of this program stay below 256: \<open>CHR 0xC0\<close> is the capital
  A with grave accent, \<open>CHR 0xE9\<close> the e with acute accent).
\<close>

type_synonym jstring = "16 word list"

definition ustr :: "string \<Rightarrow> jstring" where
  "ustr s = map of_char s"

text \<open>
  The values the data layer handles come out of \<open>JSON.parse\<close> or are built by the
  store from such values. Numbers are the integer-valued ones (exact in a double below
  \<open>2 ^ 53\<close>). An object is the list of its own properties; the engine's reordering of
  integer-like keys is not part of the model. Two more kinds of value reach the data layer
  through the overlay, which is read and written under keys that the caller chooses:

  \<^item> \<open>JBuiltin name\<close> is a function or an object that the runtime supplies and that a
    read finds on a prototype, named by the place where it is found
    (\<open>Object.prototype.toString\<close>). It is truthy and has no own enumerable property.

  \<^item> \<open>JOverlay es kvs p\<close> is the overlay object of a store, handed
    over as it is in memory: the elements if it is an array (\<open>None\<close> for a hole), its
    own named properties, and the own properties of the object that replaced its prototype,
    if one did.

  The conversion to a string of an object that has an own key \<open>toString\<close> or
  \<open>valueOf\<close> is outside the model.
\<close>

datatype jsval =
    JUndefined
  | JNull
  | JBool bool
  | JNum int
  | JStr jstring
  | JArr "jsval list"
  | JObj "(jstring \<times> jsval) list"
  | JBuiltin jstring
  | JOverlay "jsval option list option" "(jstring \<times> jsval) list"
      "(jstring \<times> jsval) list option"

datatype error = TypeError | RangeError

definition nullish :: "jsval \<Rightarrow> bool" where
  "nullish v = (v = JUndefined \<or> v = JNull)"

definition truthy :: "jsval \<Rightarrow> bool" where
  "truthy v =
     (case v of
        JUndefined \<Rightarrow> False
      | JNull \<Rightarrow> False
      | JBool b \<Rightarrow> b
      | JNum n \<Rightarrow> n \<noteq> 0
      | JStr s \<Rightarrow> s \<noteq> []
      | JArr xs \<Rightarrow> True
      | JObj kvs \<Rightarrow> True
      | JBuiltin name \<Rightarrow> True
      | JOverlay es kvs p \<Rightarrow> True)"

text \<open>
  \<open>v.key\<close> and \<open>v[key]\<close> on a value that is neither null nor undefined, for the keys
  that the program writes out in its code (\<open>status\<close>, \<open>score\<close>, \<open>notes\<close>, the keys of
  \<open>pick\<close>, ...). None of them is an index or \<open>length\<close>, and the prototypes of the
  language have no member under any of them, except \<open>String.prototype.link\<close>, which a
  record that is a bare string finds under \<open>link\<close>. The one read under a key that the
  caller chooses, \<open>state.local[id]\<close>, is \<open>read_property\<close> below.
\<close>

definition lookup :: "(jstring \<times> jsval) list \<Rightarrow> jstring \<Rightarrow> jsval" where
  "lookup kvs key = (case map_of kvs key of None \<Rightarrow> JUndefined | Some x \<Rightarrow> x)"

definition prop_of :: "jsval \<Rightarrow> jstring \<Rightarrow> jsval" where
  "prop_of v key =
     (case v of
        JObj kvs \<Rightarrow> lookup kvs key
      | JStr s \<Rightarrow>
          if key = ustr ''link'' then JBuiltin (ustr ''String.prototype.link'') else JUndefined
      | JOverlay es kvs p \<Rightarrow>
          (case map_of kvs key of
             Some x \<Rightarrow> x
           | None \<Rightarrow> (case p of None \<Rightarrow> JUndefined | Some q \<Rightarrow> lookup q key))
      | _ \<Rightarrow> JUndefined)"

text \<open>\<open>v[key]\<close>: reading a property of null or undefined throws.\<close>

definition get_prop :: "jsval \<Rightarrow> jstring \<Rightarrow> error + jsval" where
  "get_prop v key = (if nullish v then Inl TypeError else Inr (prop_of v key))"

text \<open>\<open>v?.key\<close>\<close>

definition opt_prop :: "jsval \<Rightarrow> jstring \<Rightarrow> jsval" where
  "opt_prop v key = (if nullish v then JUndefined else prop_of v key)"

fun show_nat :: "nat \<Rightarrow> jstring" where
  "show_nat n =
     (if n < 10 then [of_nat (48 + n)]
      else show_nat (n div 10) @ [of_nat (48 + n mod 10)])"

declare show_nat.simps [simp del]

definition show_int :: "int \<Rightarrow> jstring" where
  "show_int i = (if i < 0 then ustr ''-'' @ show_nat (nat (- i)) else show_nat (nat i))"

fun join_with :: "jstring \<Rightarrow> jstring list \<Rightarrow> jstring" where
  "join_with sep [] = []"
| "join_with sep [x] = x"
| "join_with sep (x # y # ys) = x @ sep @ join_with sep (y # ys)"

text \<open>\<open>String(v)\<close>; an array prints its elements joined by commas, null and undefined
  elements and holes as the empty string. No path of the program converts a built-in; its
  text is the engine's.\<close>

definition element_value :: "jsval option \<Rightarrow> jsval" where
  "element_value x = (case x of None \<Rightarrow> JUndefined | Some v \<Rightarrow> v)"

fun to_string :: "jsval \<Rightarrow> jstring" where
  "to_string JUndefined = ustr ''undefined''"
| "to_string JNull = ustr ''null''"
| "to_string (JBool b) = (if b then ustr ''true'' else ustr ''false'')"
| "to_string (JNum n) = show_int n"
| "to_string (JStr s) = s"
| "to_string (JArr xs) =
     join_with (ustr '','') (map (\<lambda>x. if nullish x then [] else to_string x) xs)"
| "to_string (JObj kvs) = ustr ''[object Object]''"
| "to_string (JBuiltin name) = ustr ''function () { [native code] }''"
| "to_string (JOverlay None kvs p) = ustr ''[object Object]''"
| "to_string (JOverlay (Some xs) kvs p) =
     join_with (ustr '','')
       (map (\<lambda>x. case x of None \<Rightarrow> [] | Some v \<Rightarrow> if nullish v then [] else to_string v) xs)"

text \<open>\<open>xs.join(sep)\<close>\<close>

definition js_join :: "jstring \<Rightarrow> jsval list \<Rightarrow> jstring" where
  "js_join sep xs = join_with sep (map (\<lambda>x. if nullish x then [] else to_string x) xs)"

text \<open>The own enumerable properties that an object spread \<open>{...v}\<close> copies.\<close>

definition own_props :: "jsval \<Rightarrow> (jstring \<times> jsval) list" where
  "own_props v =
     (case v of
        JObj kvs \<Rightarrow> kvs
      | JArr xs \<Rightarrow> zip (map show_nat [0..<length xs]) xs
      | JStr s \<Rightarrow> zip (map show_nat [0..<length s]) (map (\<lambda>c. JStr [c]) s)
      | JOverlay es kvs p \<Rightarrow>
          (case es of
             None \<Rightarrow> kvs
           | Some xs \<Rightarrow>
               concat (map (\<lambda>(i, x). case x of None \<Rightarrow> [] | Some v \<Rightarrow> [(show_nat i, v)])
                         (zip [0..<length xs] xs)) @ kvs)
      | _ \<Rightarrow> [])"

text \<open>Assigning the properties of a source one after the other: an existing key keeps its
  place and takes the new value, a new key is appended. A list that repeats a key stands
  for the object of its first bindings, as \<open>map_of\<close> reads it.\<close>

definition assign :: "(jstring \<times> jsval) list \<Rightarrow> (jstring \<times> jsval) list \<Rightarrow> (jstring \<times> jsval) list" where
  "assign target src = foldl (\<lambda>acc (k, v). AList.update k v acc) target (AList.clearjunk src)"

text \<open>\<open>{...a, ...b}\<close>: the own properties of the new object, and the object.\<close>

definition spread_props :: "jsval \<Rightarrow> jsval \<Rightarrow> (jstring \<times> jsval) list" where
  "spread_props a b = assign (assign [] (own_props a)) (own_props b)"

definition spread :: "jsval \<Rightarrow> jsval \<Rightarrow> jsval" where
  "spread a b = JObj (spread_props a b)"



text \<open>\<open>hay.includes(needle)\<close>\<close>

fun str_includes :: "jstring \<Rightarrow> jstring \<Rightarrow> bool" where
  "str_includes [] needle = (needle = [])"
| "str_includes (h # t) needle = (take (length needle) (h # t) = needle \<or> str_includes t needle)"

text \<open>
  \<open>xs.sort(cmp)\<close>: the sort of the language is stable, and with a consistent comparator its
  result is the one list that is ordered and keeps equal elements in their order, which
  inserting the elements from the right computes.
\<close>

fun insert_cmp :: "('a \<Rightarrow> 'a \<Rightarrow> int) \<Rightarrow> 'a \<Rightarrow> 'a list \<Rightarrow> 'a list" where
  "insert_cmp cmp x [] = [x]"
| "insert_cmp cmp x (y # ys) = (if cmp x y \<le> 0 then x # y # ys else y # insert_cmp cmp x ys)"

definition js_sort :: "('a \<Rightarrow> 'a \<Rightarrow> int) \<Rightarrow> 'a list \<Rightarrow> 'a list" where
  "js_sort cmp xs = foldr (insert_cmp cmp) xs []"

text \<open>
  What the program takes from its runtime and not from its own code: the parsing of a value
  by \<open>new Date\<close> (the time value in milliseconds, \<open>None\<close> for an invalid date),
  \<open>toISOString\<close>, the local midnight of the current day, \<open>toLowerCase\<close> and
  \<open>localeCompare\<close>.
\<close>

record runtime =
  date_value :: "jsval \<Rightarrow> int option"
  toISOString :: "int \<Rightarrow> jstring"
  today_ms :: int
  toLowerCase :: "jstring \<Rightarrow> jstring"
  localeCompare :: "jstring \<Rightarrow> jstring \<Rightarrow> int"

section \<open>utils.js\<close>

definition PIPELINE_STATUSES :: "jstring list" where
  "PIPELINE_STATUSES =
     [ustr (CHR 0xC0 # '' qualifier''),
      ustr ''En analyse'',
      ustr ''Go'',
      ustr ''No-Go'',
      ustr [CHR ''D'', CHR 0xE9, CHR ''p'', CHR ''o'', CHR ''s'', CHR 0xE9],
      ustr [CHR ''A'', CHR ''b'', CHR ''a'', CHR ''n'', CHR ''d'', CHR ''o'', CHR ''n'',
            CHR ''n'', CHR 0xE9]]"

definition asArray :: "jsval \<Rightarrow> jsval list" where
  "asArray v =
     (case v of
        JArr xs \<Rightarrow> xs
      | JOverlay (Some xs) kvs p \<Rightarrow> map element_value xs
      | _ \<Rightarrow> if nullish v \<or> v = JStr [] then [] else [v])"

fun pick :: "jsval \<Rightarrow> jstring list \<Rightarrow> jsval \<Rightarrow> error + jsval" where
  "pick record_v [] fallback = Inr fallback"
| "pick record_v (key # keys) fallback =
     (case get_prop record_v key of
        Inl e \<Rightarrow> Inl e
      | Inr v \<Rightarrow> if \<not> nullish v \<and> v \<noteq> JStr [] then Inr v else pick record_v keys fallback)"

definition parseDate :: "runtime \<Rightarrow> jsval \<Rightarrow> int option" where
  "parseDate rt v = (if \<not> truthy v then None else date_value rt v)"

definition toISODate :: "runtime \<Rightarrow> jsval \<Rightarrow> jstring" where
  "toISODate rt v =
     (case parseDate rt v of None \<Rightarrow> [] | Some d \<Rightarrow> take 10 (toISOString rt d))"

text \<open>\<open>Math.ceil(ms / 86400000)\<close>\<close>

definition daysUntil :: "runtime \<Rightarrow> jsval \<Rightarrow> int option" where
  "daysUntil rt v =
     (case parseDate rt v of
        None \<Rightarrow> None
      | Some d \<Rightarrow> Some (- ((today_ms rt - d) div 86400000)))"

definition textIncludes :: "runtime \<Rightarrow> jstring \<Rightarrow> jstring \<Rightarrow> bool" where
  "textIncludes rt haystack needle =
     str_includes (toLowerCase rt haystack) (toLowerCase rt needle)"

definition csv_special :: "16 word \<Rightarrow> bool" where
  "csv_special c = (c = 0x22 \<or> c = 0x2C \<or> c = 0xA \<or> c = 0x3B)"

definition replace_quotes :: "jstring \<Rightarrow> jstring" where
  "replace_quotes str = concat (map (\<lambda>c. if c = 0x22 then [0x22, 0x22] else [c]) str)"

definition csvEscape :: "jsval \<Rightarrow> jstring" where
  "csvEscape v =
     (let str = (if nullish v then [] else to_string v)
      in if list_ex csv_special str then [0x22] @ replace_quotes str @ [0x22] else str)"



section \<open>store.js\<close>

definition DATA_CANDIDATES :: "jstring list" where
  "DATA_CANDIDATES =
     [ustr ''data/opportunities.seed.json'',
      ustr ''./data/opportunities.json'',
      ustr ''./data/data.json'']"

definition LOAD_ERROR_TEXT :: jstring where
  "LOAD_ERROR_TEXT =
     ustr ''Impossible de charger automatiquement un fichier JSON depuis ./data. Utilisez Importer JSON.''"

record opportunity =
  op_id :: jstring
  title :: jsval
  op_type :: jstring
  category :: jstring
  axis :: jstring
  territory :: jstring
  deadline :: jstring
  sourceUrl :: jsval
  raw :: jsval

text \<open>
  The durable slot \<open>aap_watch_local_v1\<close>: nothing stored, a text that does not parse, or
  the JSON text of an object or of an array, given by the value it parses to. These are the
  texts that the store writes; \<open>null\<close>, a number, a string or a boolean, which only
  another program can have put there, is not a content of the slot here.
\<close>

datatype slot =
    Absent
  | Corrupt
  | ObjectText "(jstring \<times> jsval) list"
  | ArrayText "jsval list"

text \<open>
  The object behind \<open>state.local\<close>. It starts as what \<open>JSON.parse\<close> returns and is
  replaced by whatever object \<open>importSnapshot\<close> is handed under \<open>local\<close>, so it is a
  plain object or an array: \<open>elements\<close> are the elements of an array, \<open>None\<close> for a hole,
  and \<open>None\<close> when the object is no array; \<open>named\<close> are its own properties under the
  other keys. Both inherit from the prototype the language gives them, until a write under
  \<open>__proto__\<close> puts another object in its place: \<open>prototype\<close> holds the own properties
  of that object.
\<close>

record overlay =
  elements :: "jsval option list option"
  named :: "(jstring \<times> jsval) list"
  prototype :: "(jstring \<times> jsval) list option"

text \<open>The \<open>state\<close> object of \<open>createStore\<close>, together with the durable slot.\<close>

record state =
  meta :: jsval
  opportunities :: "opportunity list"
  local_overlay :: overlay
  rawDataPath :: "jstring option"
  loadError :: jstring
  storage :: slot

text \<open>What a candidate location answers: \<open>fetch\<close> rejects, the response is not ok,
  the body is not JSON, or the body parses to a value.\<close>

datatype response = NetworkError | NotOk | BadJson | Body jsval

definition ebind :: "error + 'a \<Rightarrow> ('a \<Rightarrow> error + 'b) \<Rightarrow> error + 'b" where
  "ebind r f = (case r of Inl e \<Rightarrow> Inl e | Inr x \<Rightarrow> f x)"

definition ID_KEYS :: "jstring list" where
  "ID_KEYS = [ustr ''id'', ustr ''slug'', ustr ''uid'', ustr ''name'', ustr ''title'']"

definition normalizeOpportunity :: "runtime \<Rightarrow> jsval \<Rightarrow> nat \<Rightarrow> error + opportunity" where
  "normalizeOpportunity rt record_v index =
     ebind (pick record_v ID_KEYS (JStr (ustr ''op-'' @ show_nat (index + 1)))) (\<lambda>id_v.
     ebind (pick record_v [ustr ''title'', ustr ''name'', ustr ''label''] (JStr (ustr ''Sans titre''))) (\<lambda>title_v.
     ebind (pick record_v [ustr ''type'', ustr ''opportunity_type'', ustr ''program_type''] (JStr [])) (\<lambda>type_v.
     ebind (pick record_v [ustr ''category'', ustr ''categories'', ustr ''theme''] (JStr [])) (\<lambda>category_v.
     ebind (pick record_v [ustr ''axis'', ustr ''axe'', ustr ''axes''] (JStr [])) (\<lambda>axis_v.
     ebind (pick record_v [ustr ''territory'', ustr ''location'', ustr ''zone''] (JStr [])) (\<lambda>territory_v.
     ebind (pick record_v [ustr ''deadline'', ustr ''application_deadline'', ustr ''end_date''] (JStr [])) (\<lambda>deadline_v.
     ebind (pick record_v [ustr ''url'', ustr ''source_url'', ustr ''link''] (JStr [])) (\<lambda>sourceUrl_v.
     Inr \<lparr> op_id = to_string id_v,
           title = title_v,
           op_type = js_join (ustr '', '') (asArray type_v),
           category = js_join (ustr '', '') (asArray category_v),
           axis = js_join (ustr '', '') (asArray axis_v),
           territory = js_join (ustr '', '') (asArray territory_v),
           deadline = toISODate rt deadline_v,
           sourceUrl = sourceUrl_v,
           raw = record_v \<rparr>))))))))"

text \<open>\<open>records.map((record, index) => normalizeOpportunity(record, index))\<close>, from
  position \<open>i\<close> on; the first record that throws ends the whole call.\<close>

fun normalize_from :: "runtime \<Rightarrow> nat \<Rightarrow> jsval list \<Rightarrow> error + opportunity list" where
  "normalize_from rt i [] = Inr []"
| "normalize_from rt i (r # rs) =
     (case normalizeOpportunity rt r i of
        Inl e \<Rightarrow> Inl e
      | Inr x \<Rightarrow> (case normalize_from rt (Suc i) rs of Inl e \<Rightarrow> Inl e | Inr xs \<Rightarrow> Inr (x # xs)))"

text \<open>\<open>Array.isArray(v)\<close>, and the elements that \<open>v.map\<close> visits. A dataset comes out
  of \<open>JSON.parse\<close> or of \<open>exportSnapshot\<close>, whose list of records is a fresh array; an
  array with holes in that place is outside the model, and its holes are read as
  undefined.\<close>

definition is_array :: "jsval \<Rightarrow> bool" where
  "is_array v =
     (case v of JArr xs \<Rightarrow> True | JOverlay (Some xs) kvs p \<Rightarrow> True | _ \<Rightarrow> False)"

definition array_items :: "jsval \<Rightarrow> jsval list" where
  "array_items v =
     (case v of
        JArr xs \<Rightarrow> xs
      | JOverlay (Some xs) kvs p \<Rightarrow> map element_value xs
      | _ \<Rightarrow> [])"

text \<open>The store is returned with the error, if any: \<open>state.meta\<close> is assigned before the
  records are normalized, and stays assigned when a record throws.\<close>

definition hydrateFromPayload :: "runtime \<Rightarrow> jsval \<Rightarrow> state \<Rightarrow> state \<times> error option" where
  "hydrateFromPayload rt payload s =
     (if is_array payload then
        (let s1 = s\<lparr>meta := JObj []\<rparr>
         in case normalize_from rt 0 (array_items payload) of
              Inl e \<Rightarrow> (s1, Some e)
            | Inr ops \<Rightarrow> (s1\<lparr>opportunities := ops\<rparr>, None))
      else
        (let m = opt_prop payload (ustr ''_meta'');
             s1 = s\<lparr>meta := (if truthy m then m else JObj [])\<rparr>;
             source =
               (if is_array (opt_prop payload (ustr ''opportunities''))
                then array_items (opt_prop payload (ustr ''opportunities''))
                else if is_array (opt_prop payload (ustr ''items''))
                then array_items (opt_prop payload (ustr ''items''))
                else [])
         in case normalize_from rt 0 source of
              Inl e \<Rightarrow> (s1, Some e)
            | Inr ops \<Rightarrow> (s1\<lparr>opportunities := ops\<rparr>, None)))"

text \<open>
  The loop of \<open>loadDataset\<close> over the candidates that are left. The second component lists
  the locations that were fetched, in order. An exception of \<open>hydrateFromPayload\<close> is
  caught like one of \<open>fetch\<close>, and the loop goes on with the store as the failed call
  left it.
\<close>

fun load_candidates ::
  "runtime \<Rightarrow> (jstring \<Rightarrow> response) \<Rightarrow> jstring list \<Rightarrow> state \<Rightarrow> state \<times> jstring list" where
  "load_candidates rt fetch [] s = (s\<lparr>loadError := LOAD_ERROR_TEXT\<rparr>, [])"
| "load_candidates rt fetch (path # paths) s =
     (case fetch path of
        Body payload \<Rightarrow>
          (case hydrateFromPayload rt payload s of
             (s1, None) \<Rightarrow> (s1\<lparr>rawDataPath := Some path, loadError := []\<rparr>, [path])
           | (s1, Some e) \<Rightarrow>
               (let (s2, fetched) = load_candidates rt fetch paths s1 in (s2, path # fetched)))
      | _ \<Rightarrow> (let (s2, fetched) = load_candidates rt fetch paths s in (s2, path # fetched)))"

definition loadDataset :: "runtime \<Rightarrow> (jstring \<Rightarrow> response) \<Rightarrow> state \<Rightarrow> state \<times> jstring list" where
  "loadDataset rt fetch s = load_candidates rt fetch DATA_CANDIDATES s"

text \<open>
  \<open>JSON.parse(localStorage.getItem(LOCAL_KEY) || "{}")\<close>, and the empty object when the
  text does not parse.
\<close>

definition plain_object :: "(jstring \<times> jsval) list \<Rightarrow> overlay" where
  "plain_object kvs = \<lparr> elements = None, named = kvs, prototype = None \<rparr>"

definition plain_array :: "jsval list \<Rightarrow> overlay" where
  "plain_array xs = \<lparr> elements = Some (map Some xs), named = [], prototype = None \<rparr>"

definition loadLocalState :: "slot \<Rightarrow> overlay" where
  "loadLocalState sl =
     (case sl of
        ObjectText kvs \<Rightarrow> plain_object kvs
      | ArrayText xs \<Rightarrow> plain_array xs
      | _ \<Rightarrow> plain_object [])"

definition createStore :: "slot \<Rightarrow> state" where
  "createStore sl =
     \<lparr> meta = JObj [], opportunities = [], local_overlay = loadLocalState sl,
       rawDataPath = None, loadError = [], storage = sl \<rparr>"

text \<open>
  What \<open>JSON.stringify\<close> writes for a value, as the value that the text parses back to:
  a property whose value is undefined or a function is left out of an object, and is
  \<open>null\<close> in an array, as a hole is. Of an array, only the elements are written: the
  properties it has under other keys are dropped. A replaced prototype is not written.
\<close>

fun json_value :: "jsval \<Rightarrow> jsval option" where
  "json_value JUndefined = None"
| "json_value JNull = Some JNull"
| "json_value (JBool b) = Some (JBool b)"
| "json_value (JNum n) = Some (JNum n)"
| "json_value (JStr s) = Some (JStr s)"
| "json_value (JArr xs) =
     Some (JArr (map (\<lambda>x. case json_value x of None \<Rightarrow> JNull | Some y \<Rightarrow> y) xs))"
| "json_value (JObj kvs) =
     Some (JObj (concat
       (map (\<lambda>kv. case json_value (snd kv) of None \<Rightarrow> [] | Some y \<Rightarrow> [(fst kv, y)]) kvs)))"
| "json_value (JBuiltin name) = None"
| "json_value (JOverlay None kvs p) =
     Some (JObj (concat
       (map (\<lambda>kv. case json_value (snd kv) of None \<Rightarrow> [] | Some y \<Rightarrow> [(fst kv, y)]) kvs)))"
| "json_value (JOverlay (Some xs) kvs p) =
     Some (JArr (map (\<lambda>x. case x of
                           None \<Rightarrow> JNull
                         | Some v \<Rightarrow> (case json_value v of None \<Rightarrow> JNull | Some y \<Rightarrow> y)) xs))"

definition json_fields :: "(jstring \<times> jsval) list \<Rightarrow> (jstring \<times> jsval) list" where
  "json_fields kvs =
     concat (map (\<lambda>kv. case json_value (snd kv) of None \<Rightarrow> [] | Some y \<Rightarrow> [(fst kv, y)]) kvs)"

definition json_element :: "jsval option \<Rightarrow> jsval" where
  "json_element x =
     (case x of
        None \<Rightarrow> JNull
      | Some v \<Rightarrow> (case json_value v of None \<Rightarrow> JNull | Some y \<Rightarrow> y))"

text \<open>\<open>localStorage.setItem(LOCAL_KEY, JSON.stringify(state.local))\<close>. The storage is
  taken to accept the text: a quota is not part of the model.\<close>

definition persistLocalState :: "state \<Rightarrow> state" where
  "persistLocalState s =
     s\<lparr>storage :=
         (case elements (local_overlay s) of
            None \<Rightarrow> ObjectText (json_fields (named (local_overlay s)))
          | Some xs \<Rightarrow> ArrayText (map json_element xs))\<rparr>"

definition default_score :: jsval where
  "default_score =
     JObj [(ustr ''strategic_fit'', JNum 0),
           (ustr ''eligibility'', JNum 0),
           (ustr ''effort'', JNum 0),
           (ustr ''impact'', JNum 0),
           (ustr ''timing'', JNum 0),
           (ustr ''blockers'', JStr [])]"

definition default_local :: jsval where
  "default_local =
     JObj [(ustr ''notes'', JStr []),
           (ustr ''status'', JStr (PIPELINE_STATUSES ! 0)),
           (ustr ''owner'', JStr []),
           (ustr ''nextAction'', JStr []),
           (ustr ''nextDate'', JStr []),
           (ustr ''score'', default_score)]"

text \<open>
  A key is an array index when it is the decimal numeral, without leading zero, of a number
  below \<open>2 ^ 32 - 1\<close>.
\<close>

definition is_digit :: "16 word \<Rightarrow> bool" where
  "is_digit c = (0x30 \<le> c \<and> c \<le> 0x39)"

definition read_nat :: "jstring \<Rightarrow> nat" where
  "read_nat k = foldl (\<lambda>a c. 10 * a + (unat c - 48)) 0 k"

definition array_index :: "jstring \<Rightarrow> nat option" where
  "array_index k =
     (if k \<noteq> [] \<and> list_all is_digit k \<and> (length k = 1 \<or> hd k \<noteq> 0x30) \<and>
         read_nat k < 4294967295
      then Some (read_nat k) else None)"

text \<open>
  The string keys of \<open>Object.prototype\<close> and of \<open>Array.prototype\<close>, as ECMAScript 2023
  lists them (an older engine lacks the latest methods of arrays). All of them are
  functions, except \<open>__proto__\<close>, an accessor that reads and replaces the prototype of the
  object it is called on.
\<close>

definition OBJECT_PROTOTYPE_KEYS :: "jstring list" where
  "OBJECT_PROTOTYPE_KEYS =
     [ustr ''constructor'', ustr ''hasOwnProperty'', ustr ''isPrototypeOf'',
      ustr ''propertyIsEnumerable'', ustr ''toLocaleString'', ustr ''toString'',
      ustr ''valueOf'', ustr ''__defineGetter__'', ustr ''__defineSetter__'',
      ustr ''__lookupGetter__'', ustr ''__lookupSetter__'']"

definition ARRAY_PROTOTYPE_KEYS :: "jstring list" where
  "ARRAY_PROTOTYPE_KEYS =
     [ustr ''at'', ustr ''concat'', ustr ''constructor'', ustr ''copyWithin'', ustr ''entries'',
      ustr ''every'', ustr ''fill'', ustr ''filter'', ustr ''find'', ustr ''findIndex'',
      ustr ''findLast'', ustr ''findLastIndex'', ustr ''flat'', ustr ''flatMap'',
      ustr ''forEach'', ustr ''includes'', ustr ''indexOf'', ustr ''join'', ustr ''keys'',
      ustr ''lastIndexOf'', ustr ''map'', ustr ''pop'', ustr ''push'', ustr ''reduce'',
      ustr ''reduceRight'', ustr ''reverse'', ustr ''shift'', ustr ''slice'', ustr ''some'',
      ustr ''sort'', ustr ''splice'', ustr ''toLocaleString'', ustr ''toReversed'',
      ustr ''toSorted'', ustr ''toSpliced'', ustr ''toString'', ustr ''unshift'',
      ustr ''values'', ustr ''with'']"

text \<open>The own property of the overlay under a key, if it has one: an element that is not a
  hole, the length of an array, or a named property.\<close>

definition own_property :: "overlay \<Rightarrow> jstring \<Rightarrow> jsval option" where
  "own_property ov key =
     (case elements ov of
        None \<Rightarrow> map_of (named ov) key
      | Some xs \<Rightarrow>
          (case array_index key of
             Some n \<Rightarrow> (if n < length xs then xs ! n else None)
           | None \<Rightarrow>
               if key = ustr ''length'' then Some (JNum (int (length xs)))
               else map_of (named ov) key))"

text \<open>What \<open>Object.prototype\<close> answers under a key, for an object whose prototype is
  \<open>pr\<close>; undefined when it has no such member.\<close>

definition object_prototype_member :: "jsval \<Rightarrow> jstring \<Rightarrow> jsval" where
  "object_prototype_member pr key =
     (if key = ustr ''__proto__'' then pr
      else if key \<in> set OBJECT_PROTOTYPE_KEYS then JBuiltin (ustr ''Object.prototype.'' @ key)
      else JUndefined)"

text \<open>What the prototype chain of the overlay answers under a key: the object that replaced
  the prototype and then \<open>Object.prototype\<close>, or the prototypes of the language.\<close>

definition inherited_property :: "overlay \<Rightarrow> jstring \<Rightarrow> jsval" where
  "inherited_property ov key =
     (case prototype ov of
        Some p \<Rightarrow>
          (case map_of p key of
             Some v \<Rightarrow> v
           | None \<Rightarrow> object_prototype_member (JObj p) key)
      | None \<Rightarrow>
          (case elements ov of
             None \<Rightarrow> object_prototype_member (JBuiltin (ustr ''Object.prototype'')) key
           | Some xs \<Rightarrow>
               if key \<in> set ARRAY_PROTOTYPE_KEYS
               then JBuiltin (ustr ''Array.prototype.'' @ key)
               else object_prototype_member (JBuiltin (ustr ''Array.prototype'')) key))"

text \<open>\<open>state.local[key]\<close>\<close>

definition read_property :: "overlay \<Rightarrow> jstring \<Rightarrow> jsval" where
  "read_property ov key =
     (case own_property ov key of
        Some v \<Rightarrow> v
      | None \<Rightarrow> inherited_property ov key)"

text \<open>
  \<open>state.local[key] = {...}\<close>, the value being a fresh object with the given own
  properties, whose values are data.

  \<^item> On an array, an index sets the element, and the array grows by holes up to it; the
    key \<open>length\<close> asks for a new length, and the assignment throws, since the object is no
    length: a \<open>TypeError\<close> when it cannot be converted to a primitive, which is when it has
    an own property \<open>toString\<close>, and a \<open>RangeError\<close> otherwise.

  \<^item> Under \<open>__proto__\<close>, when neither the overlay nor the object that replaced its
    prototype has an own property of that name, the accessor of \<open>Object.prototype\<close> is
    called: the new object becomes the prototype of the overlay, which gets no own
    property.

  \<^item> In every other case the overlay gets or updates an own property.
\<close>

definition reaches_setter :: "overlay \<Rightarrow> jstring \<Rightarrow> bool" where
  "reaches_setter ov key =
     (key = ustr ''__proto__'' \<and> map_of (named ov) key = None \<and>
      (case prototype ov of None \<Rightarrow> True | Some p \<Rightarrow> map_of p key = None))"

definition write_named :: "overlay \<Rightarrow> jstring \<Rightarrow> (jstring \<times> jsval) list \<Rightarrow> overlay" where
  "write_named ov key props =
     (if reaches_setter ov key then ov\<lparr>prototype := Some props\<rparr>
      else ov\<lparr>named := AList.update key (JObj props) (named ov)\<rparr>)"

definition write_property :: "overlay \<Rightarrow> jstring \<Rightarrow> (jstring \<times> jsval) list \<Rightarrow> error + overlay" where
  "write_property ov key props =
     (case elements ov of
        None \<Rightarrow> Inr (write_named ov key props)
      | Some xs \<Rightarrow>
          (case array_index key of
             Some n \<Rightarrow>
               Inr (ov\<lparr>elements :=
                          Some (if n < length xs then xs[n := Some (JObj props)]
                                else xs @ replicate (n - length xs) None @ [Some (JObj props)])\<rparr>)
           | None \<Rightarrow>
               if key = ustr ''length''
               then Inl (if map_of props (ustr ''toString'') = None then RangeError else TypeError)
               else Inr (write_named ov key props)))"

text \<open>\<open>state.local[id] || {...}\<close>. The store comes back with the value, so that what a
  read does to it can be stated.\<close>

definition getLocal :: "state \<Rightarrow> jstring \<Rightarrow> jsval \<times> state" where
  "getLocal s ident =
     (let stored = read_property (local_overlay s) ident
      in (if truthy stored then stored else default_local, s))"

text \<open>The store comes back with the exception, if the assignment throws one; nothing is
  saved then.\<close>

definition patchLocal :: "state \<Rightarrow> jstring \<Rightarrow> jsval \<Rightarrow> state \<times> error option" where
  "patchLocal s ident patch =
     (let (current, s1) = getLocal s ident
      in case write_property (local_overlay s1) ident (spread_props current patch) of
           Inl e \<Rightarrow> (s1, Some e)
         | Inr ov \<Rightarrow> (persistLocalState (s1\<lparr>local_overlay := ov\<rparr>), None))"

definition patchScore :: "state \<Rightarrow> jstring \<Rightarrow> jsval \<Rightarrow> state \<times> error option" where
  "patchScore s ident scorePatch =
     (let (current, s1) = getLocal s ident
      in patchLocal s1 ident
           (JObj [(ustr ''score'', spread (prop_of current (ustr ''score'')) scorePatch)]))"

text \<open>\<open>xs.indexOf(v)\<close> compares with \<open>===\<close>: only a string can be found in a list of
  strings.\<close>

fun index_from :: "int \<Rightarrow> jstring list \<Rightarrow> jstring \<Rightarrow> int" where
  "index_from i [] x = - 1"
| "index_from i (y # ys) x = (if y = x then i else index_from (i + 1) ys x)"

definition indexOf :: "jstring list \<Rightarrow> jsval \<Rightarrow> int" where
  "indexOf xs v = (case v of JStr x \<Rightarrow> index_from 0 xs x | _ \<Rightarrow> - 1)"

text \<open>\<open>xs[i]\<close> is undefined outside the list.\<close>

definition element_at :: "jstring list \<Rightarrow> int \<Rightarrow> jsval" where
  "element_at xs i = (if 0 \<le> i \<and> i < int (length xs) then JStr (xs ! nat i) else JUndefined)"

definition moveStatus :: "state \<Rightarrow> jstring \<Rightarrow> int \<Rightarrow> state \<times> error option" where
  "moveStatus s ident direction =
     (let (current, s1) = getLocal s ident;
          index = indexOf PIPELINE_STATUSES (prop_of current (ustr ''status''))
      in if index < 0 then (s1, None)
         else (let next = element_at PIPELINE_STATUSES (index + direction)
               in if \<not> truthy next then (s1, None)
                  else patchLocal s1 ident (JObj [(ustr ''status'', next)])))"






section \<open>ui.js\<close>

record filters =
  f_search :: jstring
  f_type :: jstring
  f_category :: jstring
  f_axis :: jstring
  f_territory :: jstring
  f_min :: jstring
  f_max :: jstring
  f_urgent :: bool
  f_sort :: jstring

text \<open>\<open>op.deadline || "9999-12-31"\<close>\<close>

definition due :: "opportunity \<Rightarrow> jstring" where
  "due op = (if deadline op \<noteq> [] then deadline op else ustr ''9999-12-31'')"

definition inRange :: "filters \<Rightarrow> opportunity \<Rightarrow> bool" where
  "inRange f op = ((f_min f = [] \<or> due op \<ge> f_min f) \<and> (f_max f = [] \<or> due op \<le> f_max f))"

text \<open>The callback of \<open>filter\<close> in \<open>filteredOpportunities\<close>.\<close>

definition keep :: "runtime \<Rightarrow> filters \<Rightarrow> state \<Rightarrow> opportunity \<Rightarrow> bool" where
  "keep rt f s op =
     (let (loc, s1) = getLocal s (op_id op);
          txt_v = js_join (ustr '' '')
                    [title op, JStr (op_type op), JStr (category op), JStr (axis op),
                     JStr (territory op), prop_of loc (ustr ''notes'')];
          urgent = (\<not> f_urgent f \<or>
                    (case daysUntil rt (JStr (deadline op)) of None \<Rightarrow> 999 | Some d \<Rightarrow> d) < 7)
      in textIncludes rt txt_v (f_search f) \<and>
         (f_type f = [] \<or> op_type op = f_type f) \<and>
         (f_category f = [] \<or> category op = f_category f) \<and>
         (f_axis f = [] \<or> axis op = f_axis f) \<and>
         (f_territory f = [] \<or> territory op = f_territory f) \<and>
         inRange f op \<and>
         urgent)"

text \<open>The comparator of \<open>sort\<close> in \<open>filteredOpportunities\<close>.\<close>

definition deadline_cmp :: "runtime \<Rightarrow> filters \<Rightarrow> opportunity \<Rightarrow> opportunity \<Rightarrow> int" where
  "deadline_cmp rt f a b =
     (if f_sort f = ustr ''asc'' then localeCompare rt (due a) (due b)
      else localeCompare rt (due b) (due a))"

definition filteredOpportunities :: "runtime \<Rightarrow> filters \<Rightarrow> state \<Rightarrow> opportunity list" where
  "filteredOpportunities rt f s = js_sort (deadline_cmp rt f) (filter (keep rt f s) (opportunities s))"

definition CSV_HEADER :: jstring where
  "CSV_HEADER =
     ustr (''Titre;Type;Cat'' @ [CHR 0xE9] @ ''gorie;Axe;Territoire;Deadline;Statut;Responsable'')"

text \<open>One row of the handler of \<open>export-csv\<close>.\<close>

definition csv_fields :: "state \<Rightarrow> opportunity \<Rightarrow> jsval list" where
  "csv_fields s op =
     (let (loc, s1) = getLocal s (op_id op)
      in [title op, JStr (op_type op), JStr (category op), JStr (axis op), JStr (territory op),
          JStr (deadline op), prop_of loc (ustr ''status''), prop_of loc (ustr ''owner'')])"

definition csv_row :: "state \<Rightarrow> opportunity \<Rightarrow> jstring" where
  "csv_row s op = join_with (ustr '';'') (map csvEscape (csv_fields s op))"

text \<open>The text handed to \<open>downloadText\<close>.\<close>

definition export_csv :: "runtime \<Rightarrow> filters \<Rightarrow> state \<Rightarrow> jstring" where
  "export_csv rt f s =
     join_with [0xA] (CSV_HEADER # map (csv_row s) (filteredOpportunities rt f s))"






section \<open>Notions used by the statements\<close>

text \<open>The records that a payload hands to the normalizer, and the value it leaves in
  \<open>state.meta\<close>.\<close>

definition payload_records :: "jsval \<Rightarrow> jsval list" where
  "payload_records payload =
     (if is_array payload then array_items payload
      else if is_array (opt_prop payload (ustr ''opportunities''))
      then array_items (opt_prop payload (ustr ''opportunities''))
      else if is_array (opt_prop payload (ustr ''items''))
      then array_items (opt_prop payload (ustr ''items''))
      else [])"

definition payload_meta :: "jsval \<Rightarrow> jsval" where
  "payload_meta payload =
     (if is_array payload then JObj []
      else if truthy (opt_prop payload (ustr ''_meta'')) then opt_prop payload (ustr ''_meta'')
      else JObj [])"

text \<open>A candidate fails when the retrieval fails, the response is not ok, or the body is
  not JSON.\<close>

definition fetch_failed :: "response \<Rightarrow> bool" where
  "fetch_failed r = (r = NetworkError \<or> r = NotOk \<or> r = BadJson)"

text \<open>A candidate succeeds when its body parses and every record of it normalizes.\<close>

definition succeeds :: "runtime \<Rightarrow> response \<Rightarrow> bool" where
  "succeeds rt r =
     (case r of
        Body payload \<Rightarrow>
          (case normalize_from rt 0 (payload_records payload) of Inl e \<Rightarrow> False | Inr ops \<Rightarrow> True)
      | _ \<Rightarrow> False)"

text \<open>A record supplies no usable identifier: each of \<open>id\<close>, \<open>slug\<close>, \<open>uid\<close>, \<open>name\<close>,
  \<open>title\<close> is missing, null or the empty string.\<close>

definition unusable :: "jsval \<Rightarrow> bool" where
  "unusable v = (nullish v \<or> v = JStr [])"

definition no_identifier :: "jsval \<Rightarrow> bool" where
  "no_identifier r = list_all (\<lambda>k. unusable (prop_of r k)) ID_KEYS"





text \<open>
  A comparator is consistent when it orders the strings totally, up to the ties it
  declares: this is what \<open>sort\<close> asks of its comparator, and what a collation gives.
\<close>

definition consistent :: "(jstring \<Rightarrow> jstring \<Rightarrow> int) \<Rightarrow> bool" where
  "consistent cmp =
     ((\<forall>a. cmp a a = 0) \<and>
      (\<forall>a b. (cmp a b < 0) = (cmp b a > 0)) \<and>
      (\<forall>a b c. cmp a b \<le> 0 \<and> cmp b c \<le> 0 \<longrightarrow> cmp a c \<le> 0))"

text \<open>
  A runtime for concrete runs: it knows two dates, lowers the ASCII letters, and compares
  strings by their code units.
\<close>

definition example_runtime :: runtime where
  "example_runtime =
     \<lparr> date_value =
         (\<lambda>v. if v = JStr (ustr ''2024-06-01'') then Some 1717200000000
              else if v = JStr (ustr ''9999-12-31'') then Some 253402214400000
              else None),
       toISOString =
         (\<lambda>t. if t = 1717200000000 then ustr ''2024-06-01T00:00:00.000Z''
              else if t = 253402214400000 then ustr ''9999-12-31T00:00:00.000Z''
              else []),
       today_ms = 1717200000000,
       toLowerCase = map (\<lambda>c. if 0x41 \<le> c \<and> c \<le> 0x5A then c + 0x20 else c),
       localeCompare = (\<lambda>a b. if a < b then - 1 else if a = b then 0 else 1) \<rparr>"

text \<open>
  A store for concrete runs. The first location is not found, the second answers a dataset
  of two records, the first without identifier and without deadline, the second with both;
  the overlay that the durable slot held has an entry under an identifier of no opportunity.
\<close>

definition example_payload :: jsval where
  "example_payload =
     JObj [(ustr ''_meta'', JObj [(ustr ''generated_at'', JStr (ustr ''2024-05-01''))]),
           (ustr ''opportunities'',
            JArr [JObj [(ustr ''categories'', JArr [JStr (ustr ''x''), JStr (ustr ''y'')])],
                  JObj [(ustr ''id'', JStr (ustr ''a'')),
                        (ustr ''deadline'', JStr (ustr ''2024-06-01''))]])]"

definition example_fetch :: "jstring \<Rightarrow> response" where
  "example_fetch p = (if p = DATA_CANDIDATES ! 0 then NotOk else Body example_payload)"

definition example_overlay :: "(jstring \<times> jsval) list" where
  "example_overlay = [(ustr ''gone'', JObj [(ustr ''owner'', JStr (ustr ''X''))])]"

definition example_store :: state where
  "example_store =
     fst (loadDataset example_runtime example_fetch (createStore (ObjectText example_overlay)))"

text \<open>A second store: a dataset whose first record has no deadline and whose second record
  is due on the last day of the year 9999.\<close>

definition tie_payload :: jsval where
  "tie_payload =
     JArr [JObj [(ustr ''id'', JStr (ustr ''undated''))],
           JObj [(ustr ''id'', JStr (ustr ''dated'')),
                 (ustr ''deadline'', JStr (ustr ''9999-12-31''))]]"

definition tie_store :: state where
  "tie_store = fst (loadDataset example_runtime (\<lambda>p. Body tie_payload) (createStore Absent))"


text \<open>The \<open>filters\<close> object as \<open>createUI\<close> creates it.\<close>

definition initial_filters :: filters where
  "initial_filters =
     \<lparr> f_search = [], f_type = [], f_category = [], f_axis = [], f_territory = [],
       f_min = [], f_max = [], f_urgent = False, f_sort = ustr ''asc'' \<rparr>"

section \<open>The recommendation\<close>







section \<open>The overlay store\<close>






lemma truthy_spread [simp]: "truthy (spread a b)"
  by (simp add: spread_def truthy_def)

lemma getLocal_snd [simp]: "snd (getLocal s ident) = s"
  by (simp add: getLocal_def Let_def)


lemma array_index_length [simp]: "array_index (ustr ''length'') = None"
  by (simp add: array_index_def ustr_def is_digit_def)

lemma array_index_proto [simp]: "array_index (ustr ''__proto__'') = None"
  by (simp add: array_index_def ustr_def is_digit_def)

lemma proto_neq_length [simp]: "ustr ''__proto__'' \<noteq> ustr ''length''"
  by (simp add: ustr_def)








lemma patchLocal_fst_snd:
  "patchLocal s ident patch =
     (case write_property (local_overlay s) ident (spread_props (fst (getLocal s ident)) patch) of
        Inl e \<Rightarrow> (s, Some e)
      | Inr ov \<Rightarrow> (persistLocalState (s\<lparr>local_overlay := ov\<rparr>), None))"
  by (simp add: patchLocal_def getLocal_def Let_def)

lemma persist_overlay [simp]: "local_overlay (persistLocalState s) = local_overlay s"
  by (simp add: persistLocalState_def)









































lemma csvEscape_text:
  "csvEscape v = csvEscape (JStr (if nullish v then [] else to_string v))"
  by (simp add: csvEscape_def nullish_def)

lemma csv_row_eq:
  "csv_row s =
     (\<lambda>op. join_with (ustr '';'')
             (map csvEscape
                [title op, JStr (op_type op), JStr (category op), JStr (axis op),
                 JStr (territory op), JStr (deadline op),
                 prop_of (fst (getLocal s (op_id op))) (ustr ''status''),
                 prop_of (fst (getLocal s (op_id op))) (ustr ''owner'')]))"
  by (rule ext) (simp only: csv_row_def csv_fields_def case_prod_beta Let_def)

text \<open>
  C9, as amended. A field of the CSV export that contains a semicolon, a comma, a double quote
  or a newline is wrapped in double quotes, with every double quote inside doubled; a field
  with none of these four characters is written as it is. A value that is not a string is
  written through its text, null and undefined as the empty text. The export is the header
  line Titre;Type;Categorie;Axe;Territoire;Deadline;Statut;Responsable (with the accent)
  followed by one line per visible opportunity, the eight fields of a line joined by
  semicolons.
\<close>

theorem csv_escape_fields:
  "csvEscape (JStr str) =
     (if \<exists>c\<in>set str. c = 0x3B \<or> c = 0x2C \<or> c = 0x22 \<or> c = 0xA
      then [0x22] @ concat (map (\<lambda>c. if c = 0x22 then [0x22, 0x22] else [c]) str) @ [0x22]
      else str)
   \<and> csvEscape v = csvEscape (JStr (if nullish v then [] else to_string v))
   \<and> export_csv rt f s =
       join_with [0xA]
         (ustr (''Titre;Type;Cat'' @ [CHR 0xE9] @ ''gorie;Axe;Territoire;Deadline;Statut;Responsable'')
          # map (\<lambda>op. join_with (ustr '';'')
                     (map csvEscape
                        [title op, JStr (op_type op), JStr (category op), JStr (axis op),
                         JStr (territory op), JStr (deadline op),
                         prop_of (fst (getLocal s (op_id op))) (ustr ''status''),
                         prop_of (fst (getLocal s (op_id op))) (ustr ''owner'')]))
              (filteredOpportunities rt f s))"
proof (intro conjI)
  have "list_ex csv_special str = (\<exists>c\<in>set str. c = 0x3B \<or> c = 0x2C \<or> c = 0x22 \<or> c = 0xA)"
    by (auto simp: list_ex_iff csv_special_def)
  then show "csvEscape (JStr str) =
     (if \<exists>c\<in>set str. c = 0x3B \<or> c = 0x2C \<or> c = 0x22 \<or> c = 0xA
      then [0x22] @ concat (map (\<lambda>c. if c = 0x22 then [0x22, 0x22] else [c]) str) @ [0x22]
      else str)"
    by (simp add: csvEscape_def nullish_def replace_quotes_def)
next
  show "csvEscape v = csvEscape (JStr (if nullish v then [] else to_string v))"
    by (rule csvEscape_text)
next
  show "export_csv rt f s =
       join_with [0xA]
         (ustr (''Titre;Type;Cat'' @ [CHR 0xE9] @ ''gorie;Axe;Territoire;Deadline;Statut;Responsable'')
          # map (\<lambda>op. join_with (ustr '';'')
                     (map csvEscape
                        [title op, JStr (op_type op), JStr (category op), JStr (axis op),
                         JStr (territory op), JStr (deadline op),
                         prop_of (fst (getLocal s (op_id op))) (ustr ''status''),
                         prop_of (fst (getLocal s (op_id op))) (ustr ''owner'')]))
              (filteredOpportunities rt f s))"
    unfolding export_csv_def CSV_HEADER_def csv_row_eq ..
qed

theorem csv_escape_fields_witness:
  "csvEscape (JStr (ustr ''a;b'')) = ustr ''\"a;b\"''
   \<and> csvEscape (JStr (ustr ''say \"hi\"'')) = ustr ''\"say \"\"hi\"\"\"''
   \<and> csvEscape (JStr (ustr ''plain'')) = ustr ''plain''"
  using csv_escape_fields [of "ustr ''a;b''" JNull example_runtime initial_filters "createStore Absent"]
        csv_escape_fields [of "ustr ''say \"hi\"''" JNull example_runtime initial_filters "createStore Absent"]
        csv_escape_fields [of "ustr ''plain''" JNull example_runtime initial_filters "createStore Absent"]
  by (simp add: ustr_def)

text \<open>
  The field \<open>a,b\<close> has no semicolon, no double quote and no newline, and is not written as it
  is: the comma makes \<open>csvEscape\<close> wrap it.
\<close>

theorem csv_comma_counterexample:
  "0x3B \<notin> set (ustr ''a,b'') \<and> 0x22 \<notin> set (ustr ''a,b'') \<and> 0xA \<notin> set (ustr ''a,b'')
   \<and> csvEscape (JStr (ustr ''a,b'')) = ustr ''\"a,b\"''
   \<and> csvEscape (JStr (ustr ''a,b'')) \<noteq> ustr ''a,b''"
  by (simp add: csvEscape_def nullish_def csv_special_def replace_quotes_def ustr_def)

section \<open>Loading the dataset\<close>

lemma hydrate_eq:
  "hydrateFromPayload rt p s =
     (case normalize_from rt 0 (payload_records p) of
        Inl e \<Rightarrow> (s\<lparr>meta := payload_meta p\<rparr>, Some e)
      | Inr ops \<Rightarrow> (s\<lparr>meta := payload_meta p, opportunities := ops\<rparr>, None))"
proof (cases "is_array p")
  case True
  then have "payload_records p = array_items p" "payload_meta p = JObj []"
    by (simp_all add: payload_records_def payload_meta_def)
  with True show ?thesis
    by (simp add: hydrateFromPayload_def Let_def split: sum.splits)
next
  case False
  then have "payload_meta p =
      (if truthy (opt_prop p (ustr ''_meta'')) then opt_prop p (ustr ''_meta'') else JObj [])"
    and "payload_records p =
      (if is_array (opt_prop p (ustr ''opportunities''))
       then array_items (opt_prop p (ustr ''opportunities''))
       else if is_array (opt_prop p (ustr ''items''))
       then array_items (opt_prop p (ustr ''items''))
       else [])"
    by (simp_all add: payload_records_def payload_meta_def)
  with False show ?thesis
    by (simp add: hydrateFromPayload_def Let_def split: sum.splits)
qed

lemma load_all_failed:
  "\<forall>p\<in>set ps. fetch_failed (fetch p) \<Longrightarrow>
   load_candidates rt fetch ps s = (s\<lparr>loadError := LOAD_ERROR_TEXT\<rparr>, ps)"
  by (induction ps arbitrary: s) (auto simp: fetch_failed_def)

lemma load_skips_failure:
  "\<not> succeeds rt (fetch p) \<Longrightarrow>
   \<exists>m. load_candidates rt fetch (p # ps) s =
        (fst (load_candidates rt fetch ps (s\<lparr>meta := m\<rparr>)),
         p # snd (load_candidates rt fetch ps (s\<lparr>meta := m\<rparr>)))"
proof (cases "fetch p")
  case (Body payload)
  assume "\<not> succeeds rt (fetch p)"
  with Body obtain e where "normalize_from rt 0 (payload_records payload) = Inl e"
    by (auto simp: succeeds_def split: sum.splits)
  with Body have "load_candidates rt fetch (p # ps) s =
        (fst (load_candidates rt fetch ps (s\<lparr>meta := payload_meta payload\<rparr>)),
         p # snd (load_candidates rt fetch ps (s\<lparr>meta := payload_meta payload\<rparr>)))"
    by (simp add: hydrate_eq case_prod_beta)
  then show ?thesis by blast
next
  case NetworkError
  then have "load_candidates rt fetch (p # ps) s =
        (fst (load_candidates rt fetch ps (s\<lparr>meta := meta s\<rparr>)),
         p # snd (load_candidates rt fetch ps (s\<lparr>meta := meta s\<rparr>)))"
    by (simp add: case_prod_beta)
  then show ?thesis by blast
next
  case NotOk
  then have "load_candidates rt fetch (p # ps) s =
        (fst (load_candidates rt fetch ps (s\<lparr>meta := meta s\<rparr>)),
         p # snd (load_candidates rt fetch ps (s\<lparr>meta := meta s\<rparr>)))"
    by (simp add: case_prod_beta)
  then show ?thesis by blast
next
  case BadJson
  then have "load_candidates rt fetch (p # ps) s =
        (fst (load_candidates rt fetch ps (s\<lparr>meta := meta s\<rparr>)),
         p # snd (load_candidates rt fetch ps (s\<lparr>meta := meta s\<rparr>)))"
    by (simp add: case_prod_beta)
  then show ?thesis by blast
qed

lemma load_first_success:
  assumes "i < length ps"
    and "fetch (ps ! i) = Body payload"
    and "normalize_from rt 0 (payload_records payload) = Inr ops"
    and "\<forall>j<i. \<not> succeeds rt (fetch (ps ! j))"
  shows "load_candidates rt fetch ps s =
           (s\<lparr>meta := payload_meta payload, opportunities := ops,
              rawDataPath := Some (ps ! i), loadError := []\<rparr>,
            take (Suc i) ps)"
  using assms
proof (induction ps arbitrary: i s)
  case Nil
  then show ?case by simp
next
  case (Cons p ps)
  show ?case
  proof (cases i)
    case 0
    with Cons.prems show ?thesis by (simp add: hydrate_eq)
  next
    case (Suc k)
    with Cons.prems have "\<not> succeeds rt (fetch p)" by auto
    then obtain m where m: "load_candidates rt fetch (p # ps) s =
        (fst (load_candidates rt fetch ps (s\<lparr>meta := m\<rparr>)),
         p # snd (load_candidates rt fetch ps (s\<lparr>meta := m\<rparr>)))"
      using load_skips_failure by blast
    from Cons.prems Suc have "k < length ps" "fetch (ps ! k) = Body payload"
      "\<forall>j<k. \<not> succeeds rt (fetch (ps ! j))" by auto
    from Cons.IH [OF this(1,2) Cons.prems(3) this(3), of "s\<lparr>meta := m\<rparr>"] m Suc
    show ?thesis by simp
  qed
qed

text \<open>
  C4. When every candidate fails (the retrieval fails, the response is not ok, or the body is
  not JSON), \<open>loadDataset\<close> sets the load error and leaves everything else of the store as it
  was: meta, opportunities, overlay, durable slot. When a candidate succeeds and none before
  it did, the store takes the meta value and the opportunities of that candidate, the load
  error is emptied, and the locations fetched are the candidates up to this one: no later
  candidate is fetched.
\<close>

theorem load_dataset_failure_and_first_success:
  "((\<forall>p\<in>set DATA_CANDIDATES. fetch_failed (fetch p)) \<longrightarrow>
      loadDataset rt fetch s = (s\<lparr>loadError := LOAD_ERROR_TEXT\<rparr>, DATA_CANDIDATES))
   \<and> (\<forall>i payload ops.
         i < length DATA_CANDIDATES \<and> fetch (DATA_CANDIDATES ! i) = Body payload
         \<and> normalize_from rt 0 (payload_records payload) = Inr ops
         \<and> (\<forall>j<i. \<not> succeeds rt (fetch (DATA_CANDIDATES ! j))) \<longrightarrow>
         loadDataset rt fetch s =
           (s\<lparr>meta := payload_meta payload, opportunities := ops,
              rawDataPath := Some (DATA_CANDIDATES ! i), loadError := []\<rparr>,
            take (Suc i) DATA_CANDIDATES))"
  unfolding loadDataset_def
  by (intro conjI allI impI) (simp add: load_all_failed, blast intro: load_first_success)

lemmas eval_defs =
  normalizeOpportunity_def ebind_def get_prop_def nullish_def prop_of_def lookup_def
  ID_KEYS_def
  show_nat.simps toISODate_def parseDate_def example_runtime_def truthy_def asArray_def
  js_join_def ustr_def

lemma candidates_apart:
  "DATA_CANDIDATES ! 1 \<noteq> DATA_CANDIDATES ! 0"
  "DATA_CANDIDATES ! Suc 0 \<noteq> DATA_CANDIDATES ! 0"
  "length DATA_CANDIDATES = 3"
  by (simp_all add: DATA_CANDIDATES_def ustr_def)

theorem load_dataset_failure_and_first_success_witness:
  "loadDataset example_runtime
     (\<lambda>p. if p = DATA_CANDIDATES ! 0 then NetworkError
          else if p = DATA_CANDIDATES ! 1 then NotOk else BadJson)
     (createStore Absent)
   = ((createStore Absent)\<lparr>loadError := LOAD_ERROR_TEXT\<rparr>, DATA_CANDIDATES)
   \<and> snd (loadDataset example_runtime
       (\<lambda>p. if p = DATA_CANDIDATES ! 0
            then Body (JObj [(ustr ''_meta'', JNum 1), (ustr ''opportunities'', JArr [JNull])])
            else Body (JArr [JObj [(ustr ''id'', JStr (ustr ''a''))]]))
       (createStore Absent))
     = take 2 DATA_CANDIDATES
   \<and> map op_id (opportunities (fst (loadDataset example_runtime
       (\<lambda>p. if p = DATA_CANDIDATES ! 0
            then Body (JObj [(ustr ''_meta'', JNum 1), (ustr ''opportunities'', JArr [JNull])])
            else Body (JArr [JObj [(ustr ''id'', JStr (ustr ''a''))]]))
       (createStore Absent))))
     = [ustr ''a'']
   \<and> meta (fst (loadDataset example_runtime
       (\<lambda>p. if p = DATA_CANDIDATES ! 0
            then Body (JObj [(ustr ''_meta'', JNum 1), (ustr ''opportunities'', JArr [JNull])])
            else Body (JArr [JObj [(ustr ''id'', JStr (ustr ''a''))]]))
       (createStore Absent)))
     = JObj []"
proof -
  let ?fa = "\<lambda>p. if p = DATA_CANDIDATES ! 0 then NetworkError
          else if p = DATA_CANDIDATES ! 1 then NotOk else BadJson"
  let ?bad = "JObj [(ustr ''_meta'', JNum 1), (ustr ''opportunities'', JArr [JNull])]"
  let ?good = "JArr [JObj [(ustr ''id'', JStr (ustr ''a''))]]"
  let ?fb = "\<lambda>p. if p = DATA_CANDIDATES ! 0 then Body ?bad else Body ?good"
  let ?s = "createStore Absent"
  let ?op = "\<lparr>op_id = ustr ''a'', title = JStr (ustr ''Sans titre''), op_type = [], category = [],
          axis = [], territory = [], deadline = [], sourceUrl = JStr [],
          raw = JObj [(ustr ''id'', JStr (ustr ''a''))]\<rparr>"
  have fails: "\<forall>p\<in>set DATA_CANDIDATES. fetch_failed (?fa p)"
    by (simp add: fetch_failed_def)
  have recs: "payload_records ?good = [JObj [(ustr ''id'', JStr (ustr ''a''))]]"
    by (simp add: payload_records_def is_array_def array_items_def)
  have norm: "normalize_from example_runtime 0 (payload_records ?good) = Inr [?op]"
    unfolding recs by (simp add: eval_defs)
  have bad_recs: "payload_records ?bad = [JNull]"
    by (simp add: payload_records_def is_array_def array_items_def opt_prop_def nullish_def
        prop_of_def lookup_def ustr_def)
  have bad: "\<forall>j<1. \<not> succeeds example_runtime (?fb (DATA_CANDIDATES ! j))"
    by (simp add: succeeds_def bad_recs normalizeOpportunity_def ebind_def get_prop_def
        nullish_def ID_KEYS_def)
  have hyp: "1 < length DATA_CANDIDATES \<and> ?fb (DATA_CANDIDATES ! 1) = Body ?good
      \<and> normalize_from example_runtime 0 (payload_records ?good) = Inr [?op]
      \<and> (\<forall>j<1. \<not> succeeds example_runtime (?fb (DATA_CANDIDATES ! j)))"
    using norm bad by (simp add: candidates_apart)
  have meta_good: "payload_meta ?good = JObj []"
    by (simp add: payload_meta_def is_array_def)
  from load_dataset_failure_and_first_success [of ?fa example_runtime ?s] fails
  have a: "loadDataset example_runtime ?fa ?s = (?s\<lparr>loadError := LOAD_ERROR_TEXT\<rparr>, DATA_CANDIDATES)"
    by blast
  from load_dataset_failure_and_first_success [of ?fb example_runtime ?s] hyp
  have b: "loadDataset example_runtime ?fb ?s =
      (?s\<lparr>meta := payload_meta ?good, opportunities := [?op],
          rawDataPath := Some (DATA_CANDIDATES ! 1), loadError := []\<rparr>,
       take (Suc 1) DATA_CANDIDATES)"
    by blast
  have two: "Suc 1 = 2" by simp
  show ?thesis
    unfolding a b meta_good two by simp
qed

section \<open>Export and import\<close>




lemma is_array_JArr [simp]: "is_array (JArr xs)" "array_items (JArr xs) = xs"
  by (simp_all add: is_array_def array_items_def)




lemma patchLocal_frame [simp]:
  "meta (fst (patchLocal s ident p)) = meta s"
  "opportunities (fst (patchLocal s ident p)) = opportunities s"
  by (simp_all add: patchLocal_fst_snd persistLocalState_def split: sum.splits)

lemma moveStatus_frame [simp]:
  "meta (fst (moveStatus s ident d)) = meta s"
  "opportunities (fst (moveStatus s ident d)) = opportunities s"
  by (simp_all add: moveStatus_def case_prod_beta Let_def)

lemma patchScore_frame [simp]:
  "meta (fst (patchScore s ident p)) = meta s"
  "opportunities (fst (patchScore s ident p)) = opportunities s"
  by (simp_all add: patchScore_def case_prod_beta)








section \<open>Identifiers\<close>

lemma digit_value: "d < 10 \<Longrightarrow> unat (of_nat (48 + d) :: 16 word) - 48 = d"
proof -
  assume "d < 10"
  then have "48 + d < 2 ^ LENGTH(16)" by simp
  then have "unat (of_nat (48 + d) :: 16 word) = 48 + d"
    by (simp only: unat_of_nat) simp
  then show ?thesis by (simp only: add_diff_cancel_left')
qed

lemma read_show_nat:
  "foldl (\<lambda>a c. 10 * a + (unat c - 48)) 0 (show_nat n) = n"
proof (induction n rule: show_nat.induct)
  case (1 n)
  show ?case
  proof (cases "n < 10")
    case True
    then have "unat (of_nat (48 + n) :: 16 word) - 48 = n" by (rule digit_value)
    with True show ?thesis
      by (subst show_nat.simps) (simp del: of_nat_add)
  next
    case False
    have "n mod 10 < 10" by simp
    then have d: "unat (of_nat (48 + n mod 10) :: 16 word) - 48 = n mod 10"
      by (rule digit_value)
    from False "1.IH" d show ?thesis
      by (subst show_nat.simps) (simp del: of_nat_add)
  qed
qed

lemma show_nat_inj: "show_nat a = show_nat b \<Longrightarrow> a = b"
  by (metis read_show_nat)

lemma pick_no_identifier:
  "\<not> nullish r \<Longrightarrow> list_all (\<lambda>k. unusable (prop_of r k)) keys \<Longrightarrow> pick r keys fb = Inr fb"
  by (induction keys) (auto simp: get_prop_def unusable_def)

lemma pick_nullish: "nullish r \<Longrightarrow> pick r (k # keys) fb = Inl TypeError"
  by (simp add: get_prop_def)

lemma normalizeOpportunity_id:
  "normalizeOpportunity rt r i = Inr x \<Longrightarrow>
   \<exists>v. pick r ID_KEYS (JStr (ustr ''op-'' @ show_nat (i + 1))) = Inr v \<and> op_id x = to_string v"
proof (cases "pick r ID_KEYS (JStr (ustr ''op-'' @ show_nat (i + 1)))")
  case (Inl e)
  assume "normalizeOpportunity rt r i = Inr x"
  with Inl show ?thesis by (simp add: normalizeOpportunity_def ebind_def)
next
  case (Inr v)
  assume "normalizeOpportunity rt r i = Inr x"
  with Inr have "op_id x = to_string v"
    by (auto simp: normalizeOpportunity_def ebind_def split: sum.splits)
  with Inr show ?thesis by simp
qed

lemma normalizeOpportunity_not_nullish:
  "normalizeOpportunity rt r i = Inr x \<Longrightarrow> \<not> nullish r"
proof
  assume n: "nullish r" and ok: "normalizeOpportunity rt r i = Inr x"
  from n have "pick r ID_KEYS (JStr (ustr ''op-'' @ show_nat (i + 1))) = Inl TypeError"
    by (simp add: ID_KEYS_def get_prop_def)
  with ok show False
    by (simp add: normalizeOpportunity_def ebind_def)
qed

lemma normalizeOpportunity_synthesized:
  assumes "normalizeOpportunity rt r i = Inr x" and "no_identifier r"
  shows "op_id x = ustr ''op-'' @ show_nat (i + 1)"
proof -
  from assms(1) have "\<not> nullish r" by (rule normalizeOpportunity_not_nullish)
  with assms(2) have "pick r ID_KEYS (JStr (ustr ''op-'' @ show_nat (i + 1)))
      = Inr (JStr (ustr ''op-'' @ show_nat (i + 1)))"
    by (simp add: no_identifier_def pick_no_identifier)
  with normalizeOpportunity_id [OF assms(1)] show ?thesis by auto
qed

lemma normalize_from_nth:
  "normalize_from rt k rs = Inr ops \<Longrightarrow>
   length ops = length rs \<and> (\<forall>i<length rs. normalizeOpportunity rt (rs ! i) (k + i) = Inr (ops ! i))"
proof (induction rs arbitrary: k ops)
  case Nil
  then show ?case by simp
next
  case (Cons r rs)
  from Cons.prems obtain x xs where x: "normalizeOpportunity rt r k = Inr x"
    and xs: "normalize_from rt (Suc k) rs = Inr xs" and ops: "ops = x # xs"
    by (auto split: sum.splits)
  from Cons.IH [OF xs] have len: "length xs = length rs"
    and nth: "\<forall>i<length rs. normalizeOpportunity rt (rs ! i) (Suc k + i) = Inr (xs ! i)"
    by simp_all
  show ?case
  proof (intro conjI allI impI)
    show "length ops = length (r # rs)" using len ops by simp
  next
    fix i
    assume "i < length (r # rs)"
    then show "normalizeOpportunity rt ((r # rs) ! i) (k + i) = Inr (ops ! i)"
      using x nth ops by (cases i) simp_all
  qed
qed

text \<open>
  C2, as amended. In a dataset that a load accepts, a record that supplies no usable identifier
  gets the identifier \<open>op-n\<close>, \<open>n\<close> its position counted from one, and two such records at
  different positions get different identifiers; a dataset in which no record supplies an
  identifier has pairwise different identifiers. A record that supplies one gets the text of
  the first usable value among id, slug, uid, name, title, which is not compared with the
  identifiers of the other records.
\<close>

theorem synthesized_ids_distinct:
  assumes "normalize_from rt 0 rs = Inr ops"
  shows "length ops = length rs
    \<and> (\<forall>i<length rs. no_identifier (rs ! i) \<longrightarrow> op_id (ops ! i) = ustr ''op-'' @ show_nat (i + 1))
    \<and> (\<forall>i<length rs. \<forall>v. pick (rs ! i) ID_KEYS (JStr (ustr ''op-'' @ show_nat (i + 1))) = Inr v
          \<longrightarrow> op_id (ops ! i) = to_string v)
    \<and> (\<forall>i<length rs. \<forall>j<length rs. i \<noteq> j \<and> no_identifier (rs ! i) \<and> no_identifier (rs ! j)
          \<longrightarrow> op_id (ops ! i) \<noteq> op_id (ops ! j))
    \<and> (list_all no_identifier rs \<longrightarrow> distinct (map op_id ops))"
proof -
  from normalize_from_nth [OF assms] have len: "length ops = length rs"
    and nth: "\<And>i. i < length rs \<Longrightarrow> normalizeOpportunity rt (rs ! i) i = Inr (ops ! i)"
    by simp_all
  have syn: "op_id (ops ! i) = ustr ''op-'' @ show_nat (i + 1)"
    if "i < length rs" "no_identifier (rs ! i)" for i
    using nth [OF that(1)] that(2) by (rule normalizeOpportunity_synthesized)
  have picked: "op_id (ops ! i) = to_string v"
    if "i < length rs" "pick (rs ! i) ID_KEYS (JStr (ustr ''op-'' @ show_nat (i + 1))) = Inr v" for i v
    using normalizeOpportunity_id [OF nth [OF that(1)]] that(2) by auto
  have apart: "op_id (ops ! i) \<noteq> op_id (ops ! j)"
    if "i < length rs" "j < length rs" "i \<noteq> j" "no_identifier (rs ! i)" "no_identifier (rs ! j)"
    for i j
  proof
    assume "op_id (ops ! i) = op_id (ops ! j)"
    with syn [OF that(1,4)] syn [OF that(2,5)] have "show_nat (i + 1) = show_nat (j + 1)"
      by simp
    then have "i + 1 = j + 1" by (rule show_nat_inj)
    with that(3) show False by simp
  qed
  have all: "distinct (map op_id ops)" if "list_all no_identifier rs"
  proof -
    from that have "\<forall>i<length rs. no_identifier (rs ! i)"
      by (simp add: list_all_length)
    with apart len show ?thesis
      by (auto simp: distinct_conv_nth)
  qed
  from len syn picked apart all show ?thesis by blast
qed

theorem synthesized_ids_distinct_witness:
  "map_sum id (map op_id)
     (normalize_from example_runtime 0 [JObj [], JObj [(ustr ''slug'', JStr (ustr ''s''))], JObj []])
   = Inr [ustr ''op-1'', ustr ''s'', ustr ''op-3'']
   \<and> map_sum id (distinct \<circ> map op_id)
     (normalize_from example_runtime 0 [JObj [], JObj [(ustr ''label'', JStr (ustr ''l''))]])
   = Inr True"
proof -
  let ?rs = "[JObj [], JObj [(ustr ''slug'', JStr (ustr ''s''))], JObj []]"
  let ?rs2 = "[JObj [], JObj [(ustr ''label'', JStr (ustr ''l''))]]"
  let ?blank = "\<lambda>r i. \<lparr>op_id = i, title = JStr (ustr ''Sans titre''), op_type = [], category = [],
          axis = [], territory = [], deadline = [], sourceUrl = JStr [], raw = r\<rparr>"
  let ?ops = "[?blank (JObj []) (ustr ''op-1''),
               ?blank (JObj [(ustr ''slug'', JStr (ustr ''s''))]) (ustr ''s''),
               ?blank (JObj []) (ustr ''op-3'')]"
  let ?ops2 = "[?blank (JObj []) (ustr ''op-1''),
                (?blank (JObj [(ustr ''label'', JStr (ustr ''l''))]) (ustr ''op-2''))
                  \<lparr>title := JStr (ustr ''l'')\<rparr>]"
  have ops: "normalize_from example_runtime 0 ?rs = Inr ?ops"
    by (simp add: eval_defs)
  have ops2: "normalize_from example_runtime 0 ?rs2 = Inr ?ops2"
    by (simp add: eval_defs)
  have all2: "list_all no_identifier ?rs2"
    by (simp add: no_identifier_def unusable_def nullish_def prop_of_def lookup_def ID_KEYS_def
        ustr_def)
  from synthesized_ids_distinct [OF ops2] all2 have "distinct (map op_id ?ops2)"
    by blast
  with synthesized_ids_distinct [OF ops] show ?thesis
    unfolding ops ops2 by simp
qed

text \<open>
  Two records that supply the same \<open>id\<close> are both accepted and get the same identifier.
\<close>

theorem supplied_ids_counterexample:
  "map_sum id (map op_id)
     (normalize_from example_runtime 0
        [JObj [(ustr ''id'', JStr (ustr ''a'')), (ustr ''title'', JStr (ustr ''first''))],
         JObj [(ustr ''id'', JStr (ustr ''a'')), (ustr ''title'', JStr (ustr ''second''))]])
   = Inr [ustr ''a'', ustr ''a'']"
  by (simp add: eval_defs)

section \<open>A concrete store\<close>

lemma example_opportunities:
  "normalize_from example_runtime 0 (payload_records example_payload) =
     Inr [\<lparr>op_id = ustr ''op-1'', title = JStr (ustr ''Sans titre''), op_type = [],
            category = ustr ''x, y'', axis = [], territory = [], deadline = [],
            sourceUrl = JStr [],
            raw = JObj [(ustr ''categories'', JArr [JStr (ustr ''x''), JStr (ustr ''y'')])]\<rparr>,
          \<lparr>op_id = ustr ''a'', title = JStr (ustr ''Sans titre''), op_type = [], category = [],
            axis = [], territory = [], deadline = ustr ''2024-06-01'', sourceUrl = JStr [],
            raw = JObj [(ustr ''id'', JStr (ustr ''a'')),
                        (ustr ''deadline'', JStr (ustr ''2024-06-01''))]\<rparr>]"
proof -
  have "payload_records example_payload =
      [JObj [(ustr ''categories'', JArr [JStr (ustr ''x''), JStr (ustr ''y'')])],
       JObj [(ustr ''id'', JStr (ustr ''a'')), (ustr ''deadline'', JStr (ustr ''2024-06-01''))]]"
    by (simp add: payload_records_def example_payload_def is_array_def opt_prop_def nullish_def
        prop_of_def lookup_def array_items_def ustr_def)
  then show ?thesis by (simp add: eval_defs)
qed

lemma example_store_eq:
  "example_store =
     (createStore (ObjectText example_overlay))
       \<lparr>meta := payload_meta example_payload,
        opportunities :=
          [\<lparr>op_id = ustr ''op-1'', title = JStr (ustr ''Sans titre''), op_type = [],
             category = ustr ''x, y'', axis = [], territory = [], deadline = [],
             sourceUrl = JStr [],
             raw = JObj [(ustr ''categories'', JArr [JStr (ustr ''x''), JStr (ustr ''y'')])]\<rparr>,
           \<lparr>op_id = ustr ''a'', title = JStr (ustr ''Sans titre''), op_type = [], category = [],
             axis = [], territory = [], deadline = ustr ''2024-06-01'', sourceUrl = JStr [],
             raw = JObj [(ustr ''id'', JStr (ustr ''a'')),
                         (ustr ''deadline'', JStr (ustr ''2024-06-01''))]\<rparr>],
        rawDataPath := Some (DATA_CANDIDATES ! 1), loadError := []\<rparr>"
proof -
  have "1 < length DATA_CANDIDATES" by (simp add: candidates_apart)
  moreover have "example_fetch (DATA_CANDIDATES ! 1) = Body example_payload"
    by (simp add: example_fetch_def candidates_apart)
  moreover have "\<forall>j<1. \<not> succeeds example_runtime (example_fetch (DATA_CANDIDATES ! j))"
    by (simp add: example_fetch_def succeeds_def)
  ultimately show ?thesis
    unfolding example_store_def loadDataset_def
    using load_first_success [OF _ _ example_opportunities, of 1 DATA_CANDIDATES example_fetch]
    by simp
qed


section \<open>The query engine\<close>

lemma set_insert_cmp: "set (insert_cmp c x ys) = insert x (set ys)"
  by (induction ys) auto

lemma set_js_sort: "set (js_sort c xs) = set xs"
  by (induction xs) (simp_all add: js_sort_def set_insert_cmp)

lemma sorted_insert_cmp:
  assumes tot: "\<And>a b. c a b > 0 \<Longrightarrow> c b a \<le> 0"
    and tr: "\<And>a b d. c a b \<le> 0 \<Longrightarrow> c b d \<le> 0 \<Longrightarrow> c a d \<le> 0"
  shows "sorted_wrt (\<lambda>a b. c a b \<le> 0) ys \<Longrightarrow> sorted_wrt (\<lambda>a b. c a b \<le> 0) (insert_cmp c x ys)"
proof (induction ys)
  case Nil
  then show ?case by simp
next
  case (Cons y ys)
  show ?case
  proof (cases "c x y \<le> 0")
    case True
    with Cons.prems have "\<forall>z\<in>set ys. c x z \<le> 0" by (auto intro: tr)
    with True Cons.prems show ?thesis by simp
  next
    case False
    then have "c y x \<le> 0" by (intro tot) simp
    with False Cons show ?thesis by (simp add: set_insert_cmp)
  qed
qed

lemma sorted_js_sort:
  assumes "\<And>a b. c a b > 0 \<Longrightarrow> c b a \<le> 0"
    and "\<And>a b d. c a b \<le> 0 \<Longrightarrow> c b d \<le> 0 \<Longrightarrow> c a d \<le> 0"
  shows "sorted_wrt (\<lambda>a b. c a b \<le> 0) (js_sort c xs)"
proof (induction xs)
  case Nil
  show ?case by (simp add: js_sort_def)
next
  case (Cons x xs)
  have "js_sort c (x # xs) = insert_cmp c x (js_sort c xs)" by (simp add: js_sort_def)
  with Cons sorted_insert_cmp [of c, OF assms] show ?case by simp
qed

lemma filter_insert_cmp_neg: "\<not> P x \<Longrightarrow> filter P (insert_cmp c x ys) = filter P ys"
  by (induction ys) auto

lemma filter_insert_cmp_pos:
  assumes "P x" and "\<And>y. P y \<Longrightarrow> c x y \<le> 0"
  shows "filter P (insert_cmp c x ys) = x # filter P ys"
  using assms by (induction ys) auto

lemma js_sort_stable:
  assumes "\<And>x y. P x \<Longrightarrow> P y \<Longrightarrow> c x y \<le> 0"
  shows "filter P (js_sort c xs) = filter P xs"
proof (induction xs)
  case Nil
  show ?case by (simp add: js_sort_def)
next
  case (Cons x xs)
  have step: "js_sort c (x # xs) = insert_cmp c x (js_sort c xs)" by (simp add: js_sort_def)
  show ?case
  proof (cases "P x")
    case True
    with assms have "filter P (insert_cmp c x (js_sort c xs)) = x # filter P (js_sort c xs)"
      by (intro filter_insert_cmp_pos) simp_all
    with True Cons step show ?thesis by simp
  next
    case False
    with Cons step show ?thesis by (simp add: filter_insert_cmp_neg)
  qed
qed

lemma consistent_tot:
  "consistent lc \<Longrightarrow> lc a b > 0 \<Longrightarrow> lc b a \<le> 0"
  unfolding consistent_def by (metis less_le_not_le linorder_not_less)

lemma consistent_tr:
  "consistent lc \<Longrightarrow> lc a b \<le> 0 \<Longrightarrow> lc b d \<le> 0 \<Longrightarrow> lc a d \<le> 0"
  unfolding consistent_def by blast

lemma consistent_refl: "consistent lc \<Longrightarrow> lc a a = 0"
  unfolding consistent_def by blast

lemma consistent_strict: "consistent lc \<Longrightarrow> lc a b < 0 \<Longrightarrow> \<not> lc b a \<le> 0"
  unfolding consistent_def by (metis linorder_not_less)

lemma sorted_filtered:
  assumes "consistent (localeCompare rt)"
  shows "sorted_wrt (\<lambda>a b. deadline_cmp rt f a b \<le> 0) (filteredOpportunities rt f s)"
  unfolding filteredOpportunities_def
proof (rule sorted_js_sort)
  fix a b
  assume "deadline_cmp rt f a b > 0"
  then show "deadline_cmp rt f b a \<le> 0"
    using consistent_tot [OF assms] by (simp add: deadline_cmp_def split: if_splits)
next
  fix a b d
  assume "deadline_cmp rt f a b \<le> 0" "deadline_cmp rt f b d \<le> 0"
  then show "deadline_cmp rt f a d \<le> 0"
    using consistent_tr [OF assms] by (auto simp: deadline_cmp_def split: if_splits)
qed

lemma stable_filtered:
  assumes "consistent (localeCompare rt)"
  shows "filter (\<lambda>op. due op = d) (filteredOpportunities rt f s) =
         filter (\<lambda>op. due op = d) (filter (keep rt f s) (opportunities s))"
  unfolding filteredOpportunities_def
  by (rule js_sort_stable) (simp add: deadline_cmp_def consistent_refl [OF assms])

lemma keep_inRange: "keep rt f s op \<Longrightarrow> inRange f op"
  by (simp add: keep_def case_prod_beta Let_def)

lemma inRange_undated:
  "deadline op = [] \<Longrightarrow>
   inRange f op = ((f_min f = [] \<or> f_min f \<le> ustr ''9999-12-31'') \<and>
                  (f_max f = [] \<or> ustr ''9999-12-31'' \<le> f_max f))"
  by (simp add: inRange_def due_def)

lemma dated_before_undated:
  assumes c: "consistent (localeCompare rt)"
    and asc: "f_sort f = ustr ''asc''"
    and i: "i < length (filteredOpportunities rt f s)"
    and j: "j < length (filteredOpportunities rt f s)"
    and di: "deadline (filteredOpportunities rt f s ! i) \<noteq> []"
    and lt: "localeCompare rt (deadline (filteredOpportunities rt f s ! i)) (ustr ''9999-12-31'') < 0"
    and dj: "deadline (filteredOpportunities rt f s ! j) = []"
  shows "i < j"
proof (rule ccontr)
  let ?res = "filteredOpportunities rt f s"
  assume "\<not> i < j"
  moreover from di dj have "i \<noteq> j" by auto
  ultimately have "j < i" by simp
  with sorted_filtered [OF c, of f s] i have "deadline_cmp rt f (?res ! j) (?res ! i) \<le> 0"
    by (simp add: sorted_wrt_iff_nth_less)
  with asc di dj have "localeCompare rt (ustr ''9999-12-31'') (deadline (?res ! i)) \<le> 0"
    by (simp add: deadline_cmp_def due_def)
  with consistent_strict [OF c lt] show False by simp
qed

lemma sentinel_after_2023: "\<not> ustr ''9999-12-31'' \<le> ustr ''2023-12-31''"
  by (simp add: ustr_def)

text \<open>
  C7, as amended. With a consistent \<open>localeCompare\<close>: the visible opportunities are those of
  the store that pass the filter, and each of them is within the range. An opportunity
  without deadline counts as due on 9999-12-31 in the inclusive range clauses, so a maximum of
  2023-12-31 leaves no undated opportunity and a minimum up to 9999-12-31 admits them. The
  sort compares the same substituted deadlines, in the direction of the configuration, and
  its result is ordered. It is stable: the opportunities of one substituted deadline come in
  their source order. In ascending order every dated opportunity whose deadline collates
  before 9999-12-31 stands before every undated one; an opportunity dated 9999-12-31 itself
  ties with the undated ones and keeps its source position among them.
\<close>

theorem deadline_filter_and_sort:
  assumes "consistent (localeCompare rt)"
  shows "set (filteredOpportunities rt f s) = {op \<in> set (opportunities s). keep rt f s op}
    \<and> (\<forall>op. keep rt f s op \<longrightarrow> inRange f op)
    \<and> (\<forall>op. deadline op = [] \<longrightarrow>
          due op = ustr ''9999-12-31''
          \<and> inRange f op = ((f_min f = [] \<or> f_min f \<le> ustr ''9999-12-31'') \<and>
                            (f_max f = [] \<or> ustr ''9999-12-31'' \<le> f_max f)))
    \<and> (f_max f = ustr ''2023-12-31'' \<longrightarrow>
          (\<forall>op\<in>set (filteredOpportunities rt f s). deadline op \<noteq> []))
    \<and> (\<forall>a b. deadline_cmp rt f a b =
          (if f_sort f = ustr ''asc'' then localeCompare rt (due a) (due b)
           else localeCompare rt (due b) (due a)))
    \<and> sorted_wrt (\<lambda>a b. deadline_cmp rt f a b \<le> 0) (filteredOpportunities rt f s)
    \<and> (\<forall>d. filter (\<lambda>op. due op = d) (filteredOpportunities rt f s) =
            filter (\<lambda>op. due op = d) (filter (keep rt f s) (opportunities s)))
    \<and> (f_sort f = ustr ''asc'' \<longrightarrow>
          (\<forall>i j. i < length (filteredOpportunities rt f s)
                \<and> j < length (filteredOpportunities rt f s)
                \<and> deadline (filteredOpportunities rt f s ! i) \<noteq> []
                \<and> localeCompare rt (deadline (filteredOpportunities rt f s ! i))
                     (ustr ''9999-12-31'') < 0
                \<and> deadline (filteredOpportunities rt f s ! j) = []
                \<longrightarrow> i < j))"
proof (intro conjI allI impI ballI)
  show "set (filteredOpportunities rt f s) = {op \<in> set (opportunities s). keep rt f s op}"
    by (simp add: filteredOpportunities_def set_js_sort)
next
  fix op :: opportunity
  assume "keep rt f s op"
  then show "inRange f op" by (rule keep_inRange)
next
  fix op :: opportunity
  assume "deadline op = []"
  then show "due op = ustr ''9999-12-31''" by (simp add: due_def)
next
  fix op :: opportunity
  assume "deadline op = []"
  then show "inRange f op = ((f_min f = [] \<or> f_min f \<le> ustr ''9999-12-31'') \<and>
                            (f_max f = [] \<or> ustr ''9999-12-31'' \<le> f_max f))"
    by (rule inRange_undated)
next
  fix op :: opportunity
  assume m: "f_max f = ustr ''2023-12-31''" and op: "op \<in> set (filteredOpportunities rt f s)"
  from op have "keep rt f s op" by (simp add: filteredOpportunities_def set_js_sort)
  then have r: "inRange f op" by (rule keep_inRange)
  show "deadline op \<noteq> []"
  proof
    assume "deadline op = []"
    from inRange_undated [OF this, of f] r m sentinel_after_2023 show False
      by (simp add: ustr_def)
  qed
next
  fix a b
  show "deadline_cmp rt f a b =
          (if f_sort f = ustr ''asc'' then localeCompare rt (due a) (due b)
           else localeCompare rt (due b) (due a))"
    by (simp add: deadline_cmp_def)
next
  show "sorted_wrt (\<lambda>a b. deadline_cmp rt f a b \<le> 0) (filteredOpportunities rt f s)"
    using assms by (rule sorted_filtered)
next
  fix d
  show "filter (\<lambda>op. due op = d) (filteredOpportunities rt f s) =
            filter (\<lambda>op. due op = d) (filter (keep rt f s) (opportunities s))"
    using assms by (rule stable_filtered)
next
  fix i j
  assume "f_sort f = ustr ''asc''"
    and "i < length (filteredOpportunities rt f s)
                \<and> j < length (filteredOpportunities rt f s)
                \<and> deadline (filteredOpportunities rt f s ! i) \<noteq> []
                \<and> localeCompare rt (deadline (filteredOpportunities rt f s ! i))
                     (ustr ''9999-12-31'') < 0
                \<and> deadline (filteredOpportunities rt f s ! j) = []"
  with assms show "i < j" by (blast intro: dated_before_undated)
qed

lemma consistent_example: "consistent (localeCompare example_runtime)"
  by (auto simp: consistent_def example_runtime_def)

lemma tie_opportunities:
  "normalize_from example_runtime 0 (payload_records tie_payload) =
     Inr [\<lparr>op_id = ustr ''undated'', title = JStr (ustr ''Sans titre''), op_type = [],
            category = [], axis = [], territory = [], deadline = [], sourceUrl = JStr [],
            raw = JObj [(ustr ''id'', JStr (ustr ''undated''))]\<rparr>,
          \<lparr>op_id = ustr ''dated'', title = JStr (ustr ''Sans titre''), op_type = [],
            category = [], axis = [], territory = [], deadline = ustr ''9999-12-31'',
            sourceUrl = JStr [],
            raw = JObj [(ustr ''id'', JStr (ustr ''dated'')),
                        (ustr ''deadline'', JStr (ustr ''9999-12-31''))]\<rparr>]"
proof -
  have "payload_records tie_payload =
      [JObj [(ustr ''id'', JStr (ustr ''undated''))],
       JObj [(ustr ''id'', JStr (ustr ''dated'')), (ustr ''deadline'', JStr (ustr ''9999-12-31''))]]"
    by (simp add: payload_records_def tie_payload_def)
  then show ?thesis by (simp add: eval_defs)
qed

lemma tie_store_opportunities:
  "opportunities tie_store =
     [\<lparr>op_id = ustr ''undated'', title = JStr (ustr ''Sans titre''), op_type = [],
            category = [], axis = [], territory = [], deadline = [], sourceUrl = JStr [],
            raw = JObj [(ustr ''id'', JStr (ustr ''undated''))]\<rparr>,
          \<lparr>op_id = ustr ''dated'', title = JStr (ustr ''Sans titre''), op_type = [],
            category = [], axis = [], territory = [], deadline = ustr ''9999-12-31'',
            sourceUrl = JStr [],
            raw = JObj [(ustr ''id'', JStr (ustr ''dated'')),
                        (ustr ''deadline'', JStr (ustr ''9999-12-31''))]\<rparr>]"
  and "local_overlay tie_store = plain_object []"
  unfolding tie_store_def loadDataset_def
  using load_first_success [OF _ _ tie_opportunities, of 0 DATA_CANDIDATES "\<lambda>p. Body tie_payload"]
  by (simp_all add: candidates_apart createStore_def loadLocalState_def)

lemma str_includes_empty [simp]: "str_includes hay []"
  by (cases hay) simp_all

lemma keep_without_filters:
  "keep example_runtime initial_filters s op"
  by (simp add: keep_def case_prod_beta Let_def initial_filters_def inRange_def textIncludes_def
      example_runtime_def)

lemma keep_max_2023:
  "keep example_runtime (initial_filters\<lparr>f_max := ustr ''2023-12-31''\<rparr>) s op =
     (due op \<le> ustr ''2023-12-31'')"
  by (simp add: keep_def case_prod_beta Let_def initial_filters_def inRange_def textIncludes_def
      example_runtime_def ustr_def)

text \<open>
  In ascending order, the undated opportunity of the second store stays before the one dated
  9999-12-31 that follows it in the source.
\<close>

theorem undated_before_dated_counterexample:
  "map op_id (filteredOpportunities example_runtime initial_filters tie_store)
     = [ustr ''undated'', ustr ''dated'']
   \<and> map deadline (filteredOpportunities example_runtime initial_filters tie_store)
     = [[], ustr ''9999-12-31'']
   \<and> f_sort initial_filters = ustr ''asc''"
proof -
  have k: "filter (keep example_runtime initial_filters tie_store) (opportunities tie_store)
      = opportunities tie_store"
    by (simp add: keep_without_filters)
  have r: "filteredOpportunities example_runtime initial_filters tie_store
      = js_sort (deadline_cmp example_runtime initial_filters) (opportunities tie_store)"
    by (simp only: filteredOpportunities_def k)
  show ?thesis
    unfolding r tie_store_opportunities
    by (simp add: js_sort_def deadline_cmp_def initial_filters_def due_def example_runtime_def)
qed

theorem deadline_filter_and_sort_witness:
  "map op_id (filteredOpportunities example_runtime initial_filters example_store)
     = [ustr ''a'', ustr ''op-1'']
   \<and> filteredOpportunities example_runtime (initial_filters\<lparr>f_max := ustr ''2023-12-31''\<rparr>)
       example_store = []
   \<and> sorted_wrt (\<lambda>a b. deadline_cmp example_runtime initial_filters a b \<le> 0)
       (filteredOpportunities example_runtime initial_filters example_store)
   \<and> filter (\<lambda>op. due op = ustr ''9999-12-31'')
       (filteredOpportunities example_runtime initial_filters example_store)
     = filter (\<lambda>op. due op = ustr ''9999-12-31'')
         (filter (keep example_runtime initial_filters example_store) (opportunities example_store))"
proof -
  let ?f = "initial_filters\<lparr>f_max := ustr ''2023-12-31''\<rparr>"
  note t = deadline_filter_and_sort [OF consistent_example, of initial_filters example_store]
  note t2 = deadline_filter_and_sort [OF consistent_example, of ?f example_store]
  have k: "filter (keep example_runtime initial_filters example_store) (opportunities example_store)
      = opportunities example_store"
    by (simp add: keep_without_filters)
  have r: "filteredOpportunities example_runtime initial_filters example_store
      = js_sort (deadline_cmp example_runtime initial_filters) (opportunities example_store)"
    by (simp only: filteredOpportunities_def k)
  have ops: "map (\<lambda>op. (op_id op, deadline op)) (opportunities example_store)
      = [(ustr ''op-1'', []), (ustr ''a'', ustr ''2024-06-01'')]"
    by (simp add: example_store_eq)
  then obtain u d where ud: "opportunities example_store = [u, d]"
    and u: "op_id u = ustr ''op-1''" "deadline u = []"
    and d: "op_id d = ustr ''a''" "deadline d = ustr ''2024-06-01''"
    by auto
  have "map op_id (js_sort (deadline_cmp example_runtime initial_filters) [u, d])
     = [ustr ''a'', ustr ''op-1'']"
    by (simp add: js_sort_def deadline_cmp_def initial_filters_def due_def example_runtime_def
        u d ustr_def)
  then have w1: "map op_id (filteredOpportunities example_runtime initial_filters example_store)
     = [ustr ''a'', ustr ''op-1'']"
    by (simp only: r ud)
  have k2: "filter (keep example_runtime ?f example_store) (opportunities example_store) = []"
    unfolding keep_max_2023 ud
    by (simp add: due_def u d ustr_def)
  have w2: "filteredOpportunities example_runtime ?f example_store = []"
    by (simp only: filteredOpportunities_def k2 js_sort_def foldr.simps id_apply)
  have m: "f_max ?f = ustr ''2023-12-31''" by simp
  from t2 m have "\<forall>op\<in>set (filteredOpportunities example_runtime ?f example_store). deadline op \<noteq> []"
    by blast
  from t have w3: "sorted_wrt (\<lambda>a b. deadline_cmp example_runtime initial_filters a b \<le> 0)
       (filteredOpportunities example_runtime initial_filters example_store)"
    by blast
  from t have w4: "filter (\<lambda>op. due op = ustr ''9999-12-31'')
       (filteredOpportunities example_runtime initial_filters example_store)
     = filter (\<lambda>op. due op = ustr ''9999-12-31'')
         (filter (keep example_runtime initial_filters example_store) (opportunities example_store))"
    by blast
  from w1 w2 w3 w4 show ?thesis by blast
qed

end

